theory Spec2Isabelle
  imports Main
begin

section \<open>Cells, rows and errors\<close>

text \<open>
  The script \<^verbatim>\<open>combine_taxonomy.py\<close> works on rows of two pandas tables, each row
  turned into a dictionary from column name to cell value. A cell read from a CSV file is
  a text, a number, or the missing value \<^verbatim>\<open>NaN\<close>. Numbers are kept as integers: the
  script only tests a number for zero and for equality. Texts are byte strings, and
  \<^verbatim>\<open>str.lower\<close> is modelled on the ASCII letters.

  The value \<open>None\<close> of a \<open>cell option\<close> stands for Python's \<^verbatim>\<open>None\<close> where a variable
  holds it, and for a key that a dictionary does not have where a row is looked up.
\<close>

datatype cell = NaN | Str string | Num int

datatype error = AttributeError | ValueError | KeyError

type_synonym row = "string \<rightharpoonup> cell"

text \<open>The list \<^verbatim>\<open>levels\<close> that every function of the script declares.\<close>

definition levels :: "string list" where
  "levels = [''Kingdom'', ''Phylum'', ''Class'', ''Order'', ''Family'', ''Genus'', ''Species'']"

text \<open>The six ranks from Phylum on, written out in the script wherever Kingdom is left out.\<close>

definition levels_below_kingdom :: "string list" where
  "levels_below_kingdom = [''Phylum'', ''Class'', ''Order'', ''Family'', ''Genus'', ''Species'']"

text \<open>\<^verbatim>\<open>pd.notna(v)\<close> and \<^verbatim>\<open>pd.isna(v)\<close>.\<close>

definition notna :: "cell \<Rightarrow> bool" where
  "notna v = (v \<noteq> NaN)"

definition isna :: "cell \<Rightarrow> bool" where
  "isna v = (v = NaN)"

text \<open>Python's truth value of a cell: \<^verbatim>\<open>nan\<close> is true, the empty text and zero are false.\<close>

definition truthy :: "cell \<Rightarrow> bool" where
  "truthy v = (case v of NaN \<Rightarrow> True | Str s \<Rightarrow> s \<noteq> [] | Num n \<Rightarrow> n \<noteq> 0)"

text \<open>
  The test \<^verbatim>\<open>pd.notna(v) and v != '' and v != 'no-match'\<close> of lines 51-52, 130-131,
  164-166 and 185-186. A number differs from every text, so Python's \<^verbatim>\<open>!=\<close> against
  a text constant is the inequality of cells.
\<close>

definition has_value :: "cell \<Rightarrow> bool" where
  "has_value v = (notna v \<and> v \<noteq> Str '''' \<and> v \<noteq> Str ''no-match'')"

text \<open>\<^verbatim>\<open>v.lower()\<close>: only a text has the method.\<close>

definition lower_char :: "char \<Rightarrow> char" where
  "lower_char c =
     (case map_of (zip ''ABCDEFGHIJKLMNOPQRSTUVWXYZ'' ''abcdefghijklmnopqrstuvwxyz'') c of
        None \<Rightarrow> c
      | Some d \<Rightarrow> d)"

definition lower :: "cell \<Rightarrow> error + string" where
  "lower v = (case v of Str s \<Rightarrow> Inr (map lower_char s) | _ \<Rightarrow> Inl AttributeError)"

text \<open>\<^verbatim>\<open>xs.index(x)\<close>: the first position of \<open>x\<close>; Python raises ValueError when there is none.\<close>

fun list_index :: "string list \<Rightarrow> string \<Rightarrow> nat option" where
  "list_index [] x = None"
| "list_index (y # ys) x = (if y = x then Some 0 else map_option Suc (list_index ys x))"

text \<open>
  \<^verbatim>\<open>a != b\<close> on two values that are cells or \<^verbatim>\<open>None\<close> (line 194): \<^verbatim>\<open>nan\<close> differs
  from everything, itself included.
\<close>

fun py_ne :: "cell option \<Rightarrow> cell option \<Rightarrow> bool" where
  "py_ne (Some NaN) y = True"
| "py_ne x (Some NaN) = True"
| "py_ne x y = (x \<noteq> y)"

text \<open>\<^verbatim>\<open>row.get(key, '')\<close>.\<close>

definition get :: "row \<Rightarrow> string \<Rightarrow> cell" where
  "get r key = (case r key of None \<Rightarrow> Str '''' | Some v \<Rightarrow> v)"

section \<open>get_taxonomy_level\<close>

text \<open>
  Lines 23-26: the loop over \<^verbatim>\<open>enumerate(reversed(levels))\<close>, returning \<^verbatim>\<open>7 - i\<close> at the
  first level that the row holds with a value.
\<close>

fun taxonomy_level_loop :: "row \<Rightarrow> (nat \<times> string) list \<Rightarrow> int" where
  "taxonomy_level_loop r [] = 0"
| "taxonomy_level_loop r ((i, level) # rest) =
     (case r level of
        None \<Rightarrow> taxonomy_level_loop r rest
      | Some v \<Rightarrow>
          if truthy v \<and> notna v \<and> v \<noteq> Str '''' \<and> v \<noteq> Str ''no-match''
          then 7 - int i
          else taxonomy_level_loop r rest)"

definition get_taxonomy_level :: "row \<Rightarrow> int" where
  "get_taxonomy_level r = taxonomy_level_loop r (enumerate 0 (rev levels))"

section \<open>find_common_level\<close>

text \<open>
  The three variables \<^verbatim>\<open>common_level\<close>, \<^verbatim>\<open>midori_value\<close>, \<^verbatim>\<open>bold_value\<close> of
  lines 36-38 are the state of the loop of lines 41-70; the function returns them at
  line 73 when the loop ends, and returns from inside the loop at the first level where
  both rows hold a value and the two values differ.
\<close>

type_synonym common = "string option \<times> cell option \<times> cell option"

text \<open>Lines 60-70: what is returned at a level where the two values differ.\<close>

definition on_mismatch :: "row \<Rightarrow> row \<Rightarrow> string \<Rightarrow> cell \<Rightarrow> cell \<Rightarrow> error + common" where
  "on_mismatch m b level x y =
     (if level = ''Phylum'' then Inr (Some ''Phylum'', Some x, Some y)
      else
        (case list_index levels level of
           None \<Rightarrow> Inl ValueError
         | Some idx \<Rightarrow>
             (let previous_idx = int idx - 1 in
              if previous_idx \<ge> 0 then
                (let previous_level = levels ! nat previous_idx in
                 case (m previous_level, b previous_level) of
                   (Some p, Some q) \<Rightarrow> Inr (Some previous_level, Some p, Some q)
                 | _ \<Rightarrow> Inr (None, None, None))
              else Inr (None, None, None))))"

fun common_level_loop :: "row \<Rightarrow> row \<Rightarrow> string list \<Rightarrow> common \<Rightarrow> error + common" where
  "common_level_loop m b [] st = Inr st"
| "common_level_loop m b (level # rest) (common_level, midori_value, bold_value) =
     (if level = ''Kingdom'' \<and> b level = None
      then common_level_loop m b rest (common_level, midori_value, bold_value)
      else
        (case (m level, b level) of
           (Some x, Some y) \<Rightarrow>
             if has_value x \<and> has_value y then
               (case lower x of
                  Inl e \<Rightarrow> Inl e
                | Inr lx \<Rightarrow>
                    (case lower y of
                       Inl e \<Rightarrow> Inl e
                     | Inr ly \<Rightarrow>
                         if lx = ly
                         then common_level_loop m b rest (Some level, Some x, Some y)
                         else on_mismatch m b level x y))
             else common_level_loop m b rest (common_level, Some x, Some y)
         | _ \<Rightarrow> common_level_loop m b rest (common_level, midori_value, bold_value)))"

definition find_common_level :: "row \<Rightarrow> row \<Rightarrow> error + common" where
  "find_common_level m b = common_level_loop m b (rev levels) (None, None, None)"

section \<open>get_best_identification\<close>

text \<open>Lines 87-97: every level from Phylum on that the row holds is without a value.\<close>

definition no_match :: "row \<Rightarrow> bool" where
  "no_match r =
     list_all (\<lambda>level. case r level of
                          None \<Rightarrow> True
                        | Some v \<Rightarrow> v = Str ''no-match'' \<or> v = Str '''' \<or> isna v)
              levels_below_kingdom"

text \<open>The copying loops of lines 103-105, 134-136, 179-181 and 189-191.\<close>

fun copy_levels :: "string list \<Rightarrow> row \<Rightarrow> row \<Rightarrow> row" where
  "copy_levels [] src result = result"
| "copy_levels (level # rest) src result =
     copy_levels rest src
       (case src level of None \<Rightarrow> result | Some v \<Rightarrow> result(level \<mapsto> v))"

text \<open>Lines 130-132 and 185-187: Kingdom is taken from the MIDORI row when it has a value there.\<close>

definition kingdom_from_midori :: "row \<Rightarrow> row \<Rightarrow> row" where
  "kingdom_from_midori m result =
     (case m ''Kingdom'' of
        None \<Rightarrow> result
      | Some v \<Rightarrow> if has_value v then result(''Kingdom'' \<mapsto> v) else result)"

text \<open>The columns of the two sources: copied (lines 109-113, 147-152, 208-219) or emptied.\<close>

definition midori_columns :: "row \<Rightarrow> row \<Rightarrow> row" where
  "midori_columns m result =
     result(''MIDORI_Similarity'' \<mapsto> get m ''Similarity'',
            ''MIDORI_evalue'' \<mapsto> get m ''evalue'',
            ''MIDORI_Flag'' \<mapsto> get m ''Flag'',
            ''MIDORI_Ambigous_taxa'' \<mapsto> get m ''Ambigous taxa'',
            ''MIDORI_Status'' \<mapsto> get m ''Status'')"

definition bold_columns :: "row \<Rightarrow> row \<Rightarrow> row" where
  "bold_columns b result =
     result(''BOLD_pct_identity'' \<mapsto> get b ''pct_identity'',
            ''BOLD_status'' \<mapsto> get b ''status'',
            ''BOLD_records'' \<mapsto> get b ''records'',
            ''BOLD_selected_level'' \<mapsto> get b ''selected_level'',
            ''BOLD_BIN'' \<mapsto> get b ''BIN'',
            ''BOLD_flags'' \<mapsto> get b ''flags'')"

definition empty_midori_columns :: "row \<Rightarrow> row" where
  "empty_midori_columns result =
     result(''MIDORI_Similarity'' \<mapsto> Str '''',
            ''MIDORI_evalue'' \<mapsto> Str '''',
            ''MIDORI_Flag'' \<mapsto> Str '''',
            ''MIDORI_Ambigous_taxa'' \<mapsto> Str '''',
            ''MIDORI_Status'' \<mapsto> Str '''')"

definition empty_bold_columns :: "row \<Rightarrow> row" where
  "empty_bold_columns result =
     result(''BOLD_pct_identity'' \<mapsto> Str '''',
            ''BOLD_status'' \<mapsto> Str '''',
            ''BOLD_records'' \<mapsto> Str '''',
            ''BOLD_selected_level'' \<mapsto> Str '''',
            ''BOLD_BIN'' \<mapsto> Str '''',
            ''BOLD_flags'' \<mapsto> Str '''')"

text \<open>Lines 100-123: the MIDORI row alone.\<close>

definition use_midori :: "row \<Rightarrow> row" where
  "use_midori m =
     empty_bold_columns
       (midori_columns m
          ((copy_levels levels m Map.empty)(''ID_source'' \<mapsto> Str ''MIDORI'')))"

text \<open>Lines 126-154: the BOLD row alone, with Kingdom from the MIDORI row.\<close>

definition use_bold :: "row \<Rightarrow> row \<Rightarrow> row" where
  "use_bold m b =
     bold_columns b
       (empty_midori_columns
          ((copy_levels levels_below_kingdom b (kingdom_from_midori m Map.empty))
             (''ID_source'' \<mapsto> Str ''BOLD'')))"

text \<open>
  Lines 160-171: when \<^verbatim>\<open>find_common_level\<close> gave no level, the first level from Kingdom
  on where both rows hold values that are equal in lower case.
\<close>

fun first_common_loop :: "row \<Rightarrow> row \<Rightarrow> string list \<Rightarrow> common \<Rightarrow> error + common" where
  "first_common_loop m b [] st = Inr st"
| "first_common_loop m b (level # rest) st =
     (case (m level, b level) of
        (Some x, Some y) \<Rightarrow>
          if notna x \<and> notna y \<and> x \<noteq> Str '''' \<and> y \<noteq> Str '''' \<and>
             x \<noteq> Str ''no-match'' \<and> y \<noteq> Str ''no-match''
          then
            (case lower x of
               Inl e \<Rightarrow> Inl e
             | Inr lx \<Rightarrow>
                 (case lower y of
                    Inl e \<Rightarrow> Inl e
                  | Inr ly \<Rightarrow>
                      if lx = ly then Inr (Some level, Some x, Some y)
                      else first_common_loop m b rest st))
          else first_common_loop m b rest st
      | _ \<Rightarrow> first_common_loop m b rest st)"

definition common_or_first :: "row \<Rightarrow> row \<Rightarrow> error + common" where
  "common_or_first m b =
     (case find_common_level m b of
        Inl e \<Rightarrow> Inl e
      | Inr (common_level, midori_value, bold_value) \<Rightarrow>
          if common_level = None
          then first_common_loop m b levels (common_level, midori_value, bold_value)
          else Inr (common_level, midori_value, bold_value))"

text \<open>Lines 177-191: the levels of the row that resolves deeper; BOLD on a tie.\<close>

definition copy_best :: "row \<Rightarrow> row \<Rightarrow> row" where
  "copy_best m b =
     (if get_taxonomy_level m > get_taxonomy_level b
      then copy_levels levels m Map.empty
      else copy_levels levels_below_kingdom b (kingdom_from_midori m Map.empty))"

definition best_source :: "row \<Rightarrow> row \<Rightarrow> string" where
  "best_source m b =
     (if get_taxonomy_level m > get_taxonomy_level b then ''MIDORI'' else ''BOLD'')"

text \<open>Lines 200-202: the loop over \<^verbatim>\<open>range(common_index + 1, len(levels))\<close>.\<close>

fun clear_loop :: "nat list \<Rightarrow> row \<Rightarrow> row" where
  "clear_loop [] result = result"
| "clear_loop (i # rest) result =
     clear_loop rest
       (if result (levels ! i) \<noteq> None then result(levels ! i \<mapsto> Str '''') else result)"

text \<open>
  Lines 194-202: the levels after the common level are cleared when a common level is
  known, the two rows resolve equally deep and the two returned values differ.
\<close>

fun clear_after_common :: "row \<Rightarrow> row \<Rightarrow> common \<Rightarrow> row \<Rightarrow> error + row" where
  "clear_after_common m b (None, midori_value, bold_value) result = Inr result"
| "clear_after_common m b (Some common_level, midori_value, bold_value) result =
     (if common_level \<noteq> [] \<and> get_taxonomy_level m = get_taxonomy_level b \<and>
         py_ne midori_value bold_value
      then
        (case list_index levels common_level of
           None \<Rightarrow> Inl ValueError
         | Some common_index \<Rightarrow>
             Inr (clear_loop [common_index + 1 ..< length levels] result))
      else Inr result)"

definition get_best_identification :: "row \<Rightarrow> row \<Rightarrow> error + row" where
  "get_best_identification m b =
     (if no_match b \<and> \<not> no_match m then Inr (use_midori m)
      else if no_match m \<and> \<not> no_match b then Inr (use_bold m b)
      else
        (case common_or_first m b of
           Inl e \<Rightarrow> Inl e
         | Inr c \<Rightarrow>
             (case clear_after_common m b c (copy_best m b) of
                Inl e \<Rightarrow> Inl e
              | Inr result \<Rightarrow>
                  Inr (bold_columns b
                         (midori_columns m
                            (result(''ID_source'' \<mapsto> Str (best_source m b))))))))"

section \<open>The loop of main\<close>





section \<open>Notions used to state the properties\<close>

text \<open>
  What the loop of \<^verbatim>\<open>find_common_level\<close> meets at one level: nothing to compare (a row
  lacks the level, or one of the two cells has no value), two values equal in lower case,
  two values that differ in lower case, or a call of \<^verbatim>\<open>lower\<close> that raises.
\<close>

datatype meeting = Passed | Agreed | Differed | Raised

definition meets :: "row \<Rightarrow> row \<Rightarrow> string \<Rightarrow> meeting" where
  "meets m b level =
     (case (m level, b level) of
        (Some x, Some y) \<Rightarrow>
          if has_value x \<and> has_value y then
            (case (lower x, lower y) of
               (Inr lx, Inr ly) \<Rightarrow> if lx = ly then Agreed else Differed
             | _ \<Rightarrow> Raised)
          else Passed
      | _ \<Rightarrow> Passed)"

text \<open>The first level of a walk at which the two rows differ.\<close>

fun first_difference :: "row \<Rightarrow> row \<Rightarrow> string list \<Rightarrow> string option" where
  "first_difference m b [] = None"
| "first_difference m b (level # rest) =
     (case meets m b level of
        Differed \<Rightarrow> Some level
      | Raised \<Rightarrow> None
      | _ \<Rightarrow> first_difference m b rest)"

text \<open>The rank one step more general, if there is one.\<close>

definition rank_before :: "string \<Rightarrow> string option" where
  "rank_before level =
     (case list_index levels level of
        Some (Suc i) \<Rightarrow> Some (levels ! i)
      | _ \<Rightarrow> None)"


text \<open>A row is without a value at a level: it lacks the level, or the cell there has no value.\<close>

definition valueless :: "row \<Rightarrow> string \<Rightarrow> bool" where
  "valueless r level = (case r level of None \<Rightarrow> True | Some v \<Rightarrow> \<not> has_value v)"

text \<open>The cells of a result at some keys, or the error.\<close>

definition fields :: "error + row \<Rightarrow> string list \<Rightarrow> error + cell option list" where
  "fields res keys = (case res of Inl e \<Rightarrow> Inl e | Inr r \<Rightarrow> Inr (map r keys))"





section \<open>Example rows\<close>

definition midori_apis :: row where
  "midori_apis =
     [''Kingdom'' \<mapsto> Str ''Animalia'', ''Phylum'' \<mapsto> Str ''Arthropoda'',
      ''Class'' \<mapsto> Str ''Insecta'', ''Order'' \<mapsto> Str ''Hymenoptera'',
      ''Family'' \<mapsto> Str ''Apidae'', ''Genus'' \<mapsto> Str ''Apis'',
      ''Species'' \<mapsto> Str ''Apis mellifera'']"

definition bold_apis :: row where
  "bold_apis =
     [''Phylum'' \<mapsto> Str ''Arthropoda'',
      ''Class'' \<mapsto> Str ''Insecta'', ''Order'' \<mapsto> Str ''Hymenoptera'',
      ''Family'' \<mapsto> Str ''Apidae'', ''Genus'' \<mapsto> Str ''Apis'',
      ''Species'' \<mapsto> Str ''Apis mellifera'']"

definition bold_apis_lower :: row where
  "bold_apis_lower =
     [''Phylum'' \<mapsto> Str ''arthropoda'',
      ''Class'' \<mapsto> Str ''insecta'', ''Order'' \<mapsto> Str ''hymenoptera'',
      ''Family'' \<mapsto> Str ''apidae'', ''Genus'' \<mapsto> Str ''apis'',
      ''Species'' \<mapsto> Str ''apis mellifera'']"













definition midori_scored :: row where
  "midori_scored =
     [''Phylum'' \<mapsto> Str ''Arthropoda'', ''Class'' \<mapsto> NaN, ''Similarity'' \<mapsto> Num 98]"

definition bold_unmatched :: row where
  "bold_unmatched =
     [''Phylum'' \<mapsto> Str ''no-match'', ''Class'' \<mapsto> NaN, ''Order'' \<mapsto> Str '''',
      ''status'' \<mapsto> Str ''no-match'']"

definition midori_diptera :: row where
  "midori_diptera =
     [''Phylum'' \<mapsto> Str ''Arthropoda'', ''Class'' \<mapsto> Str ''Insecta'',
      ''Order'' \<mapsto> Str ''Diptera'', ''Family'' \<mapsto> Str ''no-match'',
      ''Genus'' \<mapsto> NaN, ''Species'' \<mapsto> NaN]"

definition bold_carabidae :: row where
  "bold_carabidae =
     [''Phylum'' \<mapsto> Str ''Arthropoda'', ''Class'' \<mapsto> Str ''Insecta'',
      ''Order'' \<mapsto> Str ''Coleoptera'', ''Family'' \<mapsto> Str ''Carabidae'',
      ''Genus'' \<mapsto> NaN, ''Species'' \<mapsto> NaN]"

definition midori_kingdom_only :: row where
  "midori_kingdom_only =
     [''Kingdom'' \<mapsto> Str ''Animalia'', ''Phylum'' \<mapsto> NaN, ''Class'' \<mapsto> NaN,
      ''Order'' \<mapsto> NaN, ''Family'' \<mapsto> NaN, ''Genus'' \<mapsto> NaN, ''Species'' \<mapsto> NaN]"

definition bold_nothing :: row where
  "bold_nothing =
     [''Phylum'' \<mapsto> Str ''no-match'', ''Class'' \<mapsto> Str ''no-match'',
      ''Order'' \<mapsto> Str ''no-match'', ''Family'' \<mapsto> Str ''no-match'',
      ''Genus'' \<mapsto> Str ''no-match'', ''Species'' \<mapsto> Str ''no-match'']"

definition midori_nothing :: row where
  "midori_nothing =
     [''Kingdom'' \<mapsto> NaN, ''Phylum'' \<mapsto> NaN, ''Class'' \<mapsto> NaN,
      ''Order'' \<mapsto> NaN, ''Family'' \<mapsto> NaN, ''Genus'' \<mapsto> NaN, ''Species'' \<mapsto> NaN]"



section \<open>The walk of find_common_level\<close>

lemma loop_continues:
  assumes "meets m b l = Passed \<or> meets m b l = Agreed"
  shows "\<exists>st'. common_level_loop m b (l # rest) st = common_level_loop m b rest st'"
proof -
  obtain c mv bv where st: "st = (c, mv, bv)" by (cases st) auto
  show ?thesis using assms unfolding st
    by (auto simp: meets_def split: option.splits sum.splits if_splits)
qed

lemma loop_returns:
  assumes "meets m b l = Differed"
  shows "\<exists>x y. m l = Some x \<and> b l = Some y \<and> common_level_loop m b (l # rest) st = on_mismatch m b l x y"
proof -
  obtain c mv bv where st: "st = (c, mv, bv)" by (cases st) auto
  show ?thesis using assms unfolding st
    by (auto simp: meets_def split: option.splits sum.splits if_splits)
qed

lemma walk_first_difference:
  "first_difference m b ls = Some l \<Longrightarrow>
   \<exists>x y. m l = Some x \<and> b l = Some y \<and> l \<in> set ls \<and>
         common_level_loop m b ls st = on_mismatch m b l x y"
proof (induction ls arbitrary: st)
  case Nil
  then show ?case by simp
next
  case (Cons a ls)
  show ?case
  proof (cases "meets m b a")
    case Passed
    then obtain st' where s: "common_level_loop m b (a # ls) st = common_level_loop m b ls st'"
      using loop_continues by blast
    from Passed Cons.prems have "first_difference m b ls = Some l" by simp
    from Cons.IH[OF this, of st'] s show ?thesis by auto
  next
    case Agreed
    then obtain st' where s: "common_level_loop m b (a # ls) st = common_level_loop m b ls st'"
      using loop_continues by blast
    from Agreed Cons.prems have "first_difference m b ls = Some l" by simp
    from Cons.IH[OF this, of st'] s show ?thesis by auto
  next
    case Differed
    with Cons.prems have "a = l" by simp
    with loop_returns[OF Differed, of ls st] show ?thesis by auto
  next
    case Raised
    with Cons.prems show ?thesis by simp
  qed
qed



lemma on_mismatch_before:
  assumes "level \<noteq> ''Phylum''" "rank_before level = Some p"
  shows "on_mismatch m b level x y =
     (case (m p, b p) of (Some u, Some v) \<Rightarrow> Inr (Some p, Some u, Some v) | _ \<Rightarrow> Inr (None, None, None))"
  using assms
  by (auto simp: on_mismatch_def rank_before_def Let_def split: option.splits nat.splits)

section \<open>Facts about the levels and the copying loops\<close>

lemma copy_levels_apply:
  "copy_levels ls src result k = (if k \<in> set ls \<and> src k \<noteq> None then src k else result k)"
  by (induction ls arbitrary: result) (auto split: option.splits)












lemma levels_disj:
  "l \<in> set levels \<Longrightarrow>
   l = ''Kingdom'' \<or> l = ''Phylum'' \<or> l = ''Class'' \<or> l = ''Order'' \<or>
   l = ''Family'' \<or> l = ''Genus'' \<or> l = ''Species''"
  by (simp add: levels_def)

lemma columns_keep_levels:
  assumes "l \<in> set levels"
  shows "bold_columns b (midori_columns m (r(''ID_source'' \<mapsto> s))) l = r l"
  using levels_disj[OF assms]
  by (elim disjE) (simp_all add: bold_columns_def midori_columns_def)

lemma columns_source:
  "bold_columns b (midori_columns m (r(''ID_source'' \<mapsto> s))) ''ID_source'' = Some s"
  by (simp add: bold_columns_def midori_columns_def)


lemma use_midori_levels:
  assumes "l \<in> set levels"
  shows "use_midori m l = m l"
proof -
  have "use_midori m l = copy_levels levels m Map.empty l"
    using levels_disj[OF assms]
    by (elim disjE) (simp_all add: use_midori_def empty_bold_columns_def midori_columns_def)
  then show ?thesis using assms by (auto simp: copy_levels_apply)
qed

lemma valueless_meets: "valueless m l \<or> valueless b l \<Longrightarrow> meets m b l = Passed"
  by (auto simp: valueless_def meets_def split: option.splits)

lemma taxonomy_level_loop_skip:
  "valueless r l \<Longrightarrow> taxonomy_level_loop r ((i, l) # rest) = taxonomy_level_loop r rest"
  by (auto simp: valueless_def has_value_def split: option.splits)

lemma taxonomy_level_loop_hit:
  "r l = Some (Str s) \<Longrightarrow> has_value (Str s) \<Longrightarrow>
   taxonomy_level_loop r ((i, l) # rest) = 7 - int i"
  by (auto simp: has_value_def truthy_def)

lemma walk_levels:
  "enumerate 0 (rev levels) =
     [(0, ''Species''), (1, ''Genus''), (2, ''Family''), (3, ''Order''), (4, ''Class''),
      (5, ''Phylum''), (6, ''Kingdom'')]"
  by (simp add: levels_def)

lemma no_match_valueless:
  assumes "no_match r" "l \<in> set levels_below_kingdom"
  shows "valueless r l"
  using assms
  by (auto simp: no_match_def valueless_def has_value_def notna_def isna_def list_all_iff
      split: option.splits)

lemma no_match_iff: "no_match r \<longleftrightarrow> (\<forall>l \<in> set levels_below_kingdom. valueless r l)"
  by (auto simp: no_match_def valueless_def has_value_def notna_def isna_def list_all_iff
      split: option.splits)

lemma all_valueless_level:
  assumes "\<forall>l \<in> set levels. valueless r l"
  shows "get_taxonomy_level r = 0"
  using assms
  by (simp add: get_taxonomy_level_def walk_levels taxonomy_level_loop_skip levels_def
      del: taxonomy_level_loop.simps(2))

lemma all_passed_walk:
  "\<forall>l \<in> set ls. meets m b l = Passed \<Longrightarrow>
   \<exists>u v. common_level_loop m b ls (c, mv, bv) = Inr (c, u, v)"
proof (induction ls arbitrary: mv bv)
  case Nil
  then show ?case by simp
next
  case (Cons a ls)
  then have "meets m b a = Passed" by simp
  then have "\<exists>u v. common_level_loop m b (a # ls) (c, mv, bv) = common_level_loop m b ls (c, u, v)"
    by (auto simp: meets_def split: option.splits sum.splits if_splits)
  then obtain u v where
    s: "common_level_loop m b (a # ls) (c, mv, bv) = common_level_loop m b ls (c, u, v)"
    by blast
  from Cons.prems have "\<forall>l \<in> set ls. meets m b l = Passed" by simp
  from Cons.IH[OF this, of u v] show ?case unfolding s .
qed

lemma first_common_loop_none:
  "\<forall>l \<in> set ls. valueless m l \<or> valueless b l \<Longrightarrow> first_common_loop m b ls st = Inr st"
  by (induction ls) (auto simp: valueless_def has_value_def split: option.splits)

lemma general_branch:
  assumes "\<not> (no_match b \<and> \<not> no_match m)" and "\<not> (no_match m \<and> \<not> no_match b)"
  shows "get_best_identification m b =
          (case common_or_first m b of
             Inl e \<Rightarrow> Inl e
           | Inr c \<Rightarrow>
               (case clear_after_common m b c (copy_best m b) of
                  Inl e \<Rightarrow> Inl e
                | Inr result \<Rightarrow>
                    Inr (bold_columns b
                           (midori_columns m
                              (result(''ID_source'' \<mapsto> Str (best_source m b)))))))"
  using assms unfolding get_best_identification_def
  by (cases "no_match m"; cases "no_match b"; simp)

lemma kingdom_from_midori_other:
  "l \<noteq> ''Kingdom'' \<Longrightarrow> kingdom_from_midori m r l = r l"
  by (simp add: kingdom_from_midori_def split: option.splits)

lemma below_kingdom_levels:
  "l \<in> set levels_below_kingdom \<Longrightarrow> l \<in> set levels \<and> l \<noteq> ''Kingdom''"
  by (auto simp: levels_below_kingdom_def levels_def)

lemma copy_bold_levels:
  assumes "l \<in> set levels_below_kingdom"
  shows "copy_levels levels_below_kingdom b (kingdom_from_midori m Map.empty) l = b l"
proof -
  from assms have "l \<noteq> ''Kingdom''" using below_kingdom_levels by blast
  then have "kingdom_from_midori m Map.empty l = None"
    by (simp add: kingdom_from_midori_other)
  then show ?thesis using assms unfolding copy_levels_apply by (cases "b l") simp_all
qed




section \<open>When the functions return\<close>








section \<open>The loop of the driver\<close>








section \<open>The claims about find_common_level\<close>

text \<open>
  C1. The claim: for two rows that agree at every rank both offer, \<^verbatim>\<open>find_common_level\<close>
  returns the most specific rank both offer, with the two values there. On the honey bee,
  identified alike to Species by both sources (BOLD without a Kingdom column), the
  function returns Phylum and the two Phylum values: each agreeing level overwrites
  \<^verbatim>\<open>common_level\<close>, and the walk ends at the most general one.
\<close>

theorem find_common_level_agreeing_rows:
  "find_common_level midori_apis bold_apis =
     Inr (Some ''Phylum'', Some (Str ''Arthropoda''), Some (Str ''Arthropoda''))"
  by (simp add: find_common_level_def levels_def midori_apis_def bold_apis_def
      has_value_def notna_def lower_def)








section \<open>The claims about get_best_identification\<close>

text \<open>
  C2. The claim: rows that differ only in letter case are treated as agreeing, and no
  rank is cleared. On the honey bee, with the BOLD values in lower case, both rows resolve
  to Species, \<^verbatim>\<open>find_common_level\<close> returns Phylum with the values \<^verbatim>\<open>Arthropoda\<close> and
  \<^verbatim>\<open>arthropoda\<close>, and line 194 compares these two with \<^verbatim>\<open>!=\<close>, which tells the letter
  cases apart: every rank from Class to Species is set to the empty text.
\<close>

theorem letter_case_clears_ranks:
  "fields (get_best_identification midori_apis bold_apis_lower) (levels @ [''ID_source'']) =
     Inr [Some (Str ''Animalia''), Some (Str ''arthropoda''), Some (Str ''''), Some (Str ''''),
          Some (Str ''''), Some (Str ''''), Some (Str ''''), Some (Str ''BOLD'')]"
  by (simp add: fields_def get_best_identification_def no_match_def levels_below_kingdom_def
      isna_def midori_apis_def bold_apis_lower_def common_or_first_def find_common_level_def
      levels_def has_value_def notna_def lower_def lower_char_def get_taxonomy_level_def
      truthy_def copy_best_def best_source_def kingdom_from_midori_def bold_columns_def
      midori_columns_def upt_rec)




text \<open>
  C7. When the BOLD row is without a value at every level from Phylum to Species that it
  has, and the MIDORI row is not, the result is tagged MIDORI, holds at each of the seven
  levels what the MIDORI row holds there, has the six BOLD columns empty, and carries the
  five MIDORI columns as \<^verbatim>\<open>midori_row.get\<close> reads them.
\<close>

theorem bold_without_match_uses_midori:
  assumes "no_match b" and "\<not> no_match m"
  shows "\<exists>r. get_best_identification m b = Inr r \<and>
           r ''ID_source'' = Some (Str ''MIDORI'') \<and>
           (\<forall>l \<in> set levels. r l = m l) \<and>
           r ''BOLD_pct_identity'' = Some (Str '''') \<and>
           r ''BOLD_status'' = Some (Str '''') \<and>
           r ''BOLD_records'' = Some (Str '''') \<and>
           r ''BOLD_selected_level'' = Some (Str '''') \<and>
           r ''BOLD_BIN'' = Some (Str '''') \<and>
           r ''BOLD_flags'' = Some (Str '''') \<and>
           r ''MIDORI_Similarity'' = Some (get m ''Similarity'') \<and>
           r ''MIDORI_evalue'' = Some (get m ''evalue'') \<and>
           r ''MIDORI_Flag'' = Some (get m ''Flag'') \<and>
           r ''MIDORI_Ambigous_taxa'' = Some (get m ''Ambigous taxa'') \<and>
           r ''MIDORI_Status'' = Some (get m ''Status'')"
proof -
  have g: "get_best_identification m b = Inr (use_midori m)"
    using assms by (simp add: get_best_identification_def)
  have "use_midori m ''ID_source'' = Some (Str ''MIDORI'')"
    by (simp add: use_midori_def empty_bold_columns_def midori_columns_def)
  moreover have "\<forall>l \<in> set levels. use_midori m l = m l"
    using use_midori_levels by blast
  moreover have "use_midori m ''BOLD_pct_identity'' = Some (Str '''')"
    "use_midori m ''BOLD_status'' = Some (Str '''')"
    "use_midori m ''BOLD_records'' = Some (Str '''')"
    "use_midori m ''BOLD_selected_level'' = Some (Str '''')"
    "use_midori m ''BOLD_BIN'' = Some (Str '''')"
    "use_midori m ''BOLD_flags'' = Some (Str '''')"
    by (simp_all add: use_midori_def empty_bold_columns_def)
  moreover have "use_midori m ''MIDORI_Similarity'' = Some (get m ''Similarity'')"
    "use_midori m ''MIDORI_evalue'' = Some (get m ''evalue'')"
    "use_midori m ''MIDORI_Flag'' = Some (get m ''Flag'')"
    "use_midori m ''MIDORI_Ambigous_taxa'' = Some (get m ''Ambigous taxa'')"
    "use_midori m ''MIDORI_Status'' = Some (get m ''Status'')"
    by (simp_all add: use_midori_def empty_bold_columns_def midori_columns_def)
  ultimately show ?thesis using g by simp
qed

theorem bold_without_match_uses_midori_witness:
  "no_match bold_unmatched \<and> \<not> no_match midori_scored \<and>
   fields (get_best_identification midori_scored bold_unmatched)
     [''ID_source'', ''Phylum'', ''Class'', ''Order'', ''BOLD_status'', ''MIDORI_Similarity'',
      ''MIDORI_evalue''] =
     Inr [Some (Str ''MIDORI''), Some (Str ''Arthropoda''), Some NaN, None, Some (Str ''''),
          Some (Num 98), Some (Str '''')]"
proof -
  have h1: "no_match bold_unmatched"
    by (simp add: no_match_def levels_below_kingdom_def bold_unmatched_def isna_def)
  have h2: "\<not> no_match midori_scored"
    by (simp add: no_match_def levels_below_kingdom_def midori_scored_def isna_def)
  from bold_without_match_uses_midori[OF h1 h2]
  obtain r where g: "get_best_identification midori_scored bold_unmatched = Inr r"
    and s: "r ''ID_source'' = Some (Str ''MIDORI'')"
    and l: "\<forall>l \<in> set levels. r l = midori_scored l"
    and b: "r ''BOLD_status'' = Some (Str '''')"
    and m: "r ''MIDORI_Similarity'' = Some (get midori_scored ''Similarity'')"
      "r ''MIDORI_evalue'' = Some (get midori_scored ''evalue'')"
    by blast
  from l have "r ''Phylum'' = midori_scored ''Phylum''" "r ''Class'' = midori_scored ''Class''"
    "r ''Order'' = midori_scored ''Order''"
    by (simp_all add: levels_def)
  with g s b m have "fields (get_best_identification midori_scored bold_unmatched)
     [''ID_source'', ''Phylum'', ''Class'', ''Order'', ''BOLD_status'', ''MIDORI_Similarity'',
      ''MIDORI_evalue''] =
     Inr [Some (Str ''MIDORI''), Some (Str ''Arthropoda''), Some NaN, None, Some (Str ''''),
          Some (Num 98), Some (Str '''')]"
    by (simp add: fields_def midori_scored_def get_def)
  with h1 h2 show ?thesis by blast
qed

text \<open>
  C3, as the claim states it: on the two rows of the scenario (MIDORI resolved to the
  order Diptera, depth 4; BOLD to the family Carabidae, depth 5) Order, Family, Genus and
  Species are cleared. The result keeps the Order and the Family of the BOLD row: the
  depths differ, and line 194 clears only when they are equal.
\<close>

theorem scenario_counterexample:
  "fields (get_best_identification midori_diptera bold_carabidae)
     [''Order'', ''Family''] = Inr [Some (Str ''Coleoptera''), Some (Str ''Carabidae'')] \<and>
   fields (get_best_identification midori_diptera bold_carabidae)
     [''Order'', ''Family''] \<noteq> Inr [Some (Str ''''), Some (Str '''')]"
  by (simp add: fields_def get_best_identification_def no_match_def levels_below_kingdom_def
      isna_def midori_diptera_def bold_carabidae_def common_or_first_def find_common_level_def
      levels_def has_value_def notna_def lower_def lower_char_def get_taxonomy_level_def
      truthy_def copy_best_def best_source_def kingdom_from_midori_def bold_columns_def
      midori_columns_def on_mismatch_def)

text \<open>
  C3, amended: on every pair of rows with the values of the scenario from Phylum to
  Family and without a value at Genus and Species, the depths are 4 and 5,
  \<^verbatim>\<open>find_common_level\<close> returns Class with the value Insecta twice, the result is tagged
  BOLD (4 is not greater than 5), and nothing is cleared: the result holds the BOLD row's
  Phylum, Class, Order and Family, and its cells at Genus and Species.
\<close>

theorem scenario_keeps_bold_ranks:
  assumes m: "m ''Phylum'' = Some (Str ''Arthropoda'')" "m ''Class'' = Some (Str ''Insecta'')"
      "m ''Order'' = Some (Str ''Diptera'')" "m ''Family'' = Some (Str ''no-match'')"
      "valueless m ''Genus''" "valueless m ''Species''"
    and b: "b ''Phylum'' = Some (Str ''Arthropoda'')" "b ''Class'' = Some (Str ''Insecta'')"
      "b ''Order'' = Some (Str ''Coleoptera'')" "b ''Family'' = Some (Str ''Carabidae'')"
      "valueless b ''Genus''" "valueless b ''Species''"
  shows "get_taxonomy_level m = 4 \<and> get_taxonomy_level b = 5 \<and>
         find_common_level m b =
           Inr (Some ''Class'', Some (Str ''Insecta''), Some (Str ''Insecta'')) \<and>
         (\<exists>r. get_best_identification m b = Inr r \<and>
              r ''ID_source'' = Some (Str ''BOLD'') \<and>
              r ''Phylum'' = Some (Str ''Arthropoda'') \<and>
              r ''Class'' = Some (Str ''Insecta'') \<and>
              r ''Order'' = Some (Str ''Coleoptera'') \<and>
              r ''Family'' = Some (Str ''Carabidae'') \<and>
              r ''Genus'' = b ''Genus'' \<and> r ''Species'' = b ''Species'')"
proof -
  have mf: "valueless m ''Family''" using m(4) by (simp add: valueless_def has_value_def)
  have hv: "has_value (Str ''Diptera'')" "has_value (Str ''Carabidae'')"
    "has_value (Str ''Arthropoda'')" "has_value (Str ''Coleoptera'')"
    by (simp_all add: has_value_def notna_def)
  have dm: "get_taxonomy_level m = 4"
    using m(5,6) mf taxonomy_level_loop_hit[where r = m and l = "''Order''", OF m(3) hv(1)]
    by (simp add: get_taxonomy_level_def walk_levels taxonomy_level_loop_skip
        del: taxonomy_level_loop.simps)
  have db: "get_taxonomy_level b = 5"
    using b(5,6) taxonomy_level_loop_hit[where r = b and l = "''Family''", OF b(4) hv(2)]
    by (simp add: get_taxonomy_level_def walk_levels taxonomy_level_loop_skip
        del: taxonomy_level_loop.simps)
  have p: "meets m b ''Species'' = Passed" "meets m b ''Genus'' = Passed"
    "meets m b ''Family'' = Passed"
    using m(5,6) mf by (simp_all add: valueless_meets)
  have d: "meets m b ''Order'' = Differed"
    using m(3) b(3) hv by (simp add: meets_def lower_def lower_char_def)
  have fd: "first_difference m b (rev levels) = Some ''Order''"
    using p d by (simp add: levels_def)
  have rb: "rank_before ''Order'' = Some ''Class''"
    by (simp add: rank_before_def levels_def)
  from walk_first_difference[OF fd, of "(None, None, None)"]
  obtain x y where "find_common_level m b = on_mismatch m b ''Order'' x y"
    by (auto simp: find_common_level_def)
  with on_mismatch_before[OF _ rb, of m b x y] m(2) b(2)
  have f: "find_common_level m b =
     Inr (Some ''Class'', Some (Str ''Insecta''), Some (Str ''Insecta''))"
    by simp
  have "\<not> valueless m ''Phylum''" "\<not> valueless b ''Phylum''"
    using m(1) b(1) hv by (simp_all add: valueless_def)
  then have nm: "\<not> no_match m" "\<not> no_match b"
    by (simp_all add: no_match_iff levels_below_kingdom_def)
  have cf: "common_or_first m b =
     Inr (Some ''Class'', Some (Str ''Insecta''), Some (Str ''Insecta''))"
    by (simp add: common_or_first_def f)
  have cb: "copy_best m b = copy_levels levels_below_kingdom b (kingdom_from_midori m Map.empty)"
    by (simp add: copy_best_def dm db)
  have bs: "best_source m b = ''BOLD''"
    by (simp add: best_source_def dm db)
  define r where
    "r = bold_columns b (midori_columns m ((copy_best m b)(''ID_source'' \<mapsto> Str ''BOLD'')))"
  have cl: "clear_after_common m b
      (Some ''Class'', Some (Str ''Insecta''), Some (Str ''Insecta'')) (copy_best m b) =
      Inr (copy_best m b)"
    by (simp add: dm db)
  have g: "get_best_identification m b = Inr r"
    using nm by (simp add: general_branch cf cl bs r_def del: clear_after_common.simps)
  have rl: "r l = b l" if "l \<in> set levels_below_kingdom" for l
  proof -
    from that have "l \<in> set levels" using below_kingdom_levels by blast
    then have "r l = copy_best m b l" unfolding r_def by (rule columns_keep_levels)
    also have "\<dots> = b l" unfolding cb using that by (rule copy_bold_levels)
    finally show ?thesis .
  qed
  have s: "r ''ID_source'' = Some (Str ''BOLD'')" unfolding r_def by (rule columns_source)
  have "r ''Phylum'' = b ''Phylum''" "r ''Class'' = b ''Class''"
    "r ''Order'' = b ''Order''" "r ''Family'' = b ''Family''" "r ''Genus'' = b ''Genus''"
    "r ''Species'' = b ''Species''"
    by (simp_all add: rl levels_below_kingdom_def)
  with s g b(1-4) have "\<exists>r. get_best_identification m b = Inr r \<and>
              r ''ID_source'' = Some (Str ''BOLD'') \<and>
              r ''Phylum'' = Some (Str ''Arthropoda'') \<and>
              r ''Class'' = Some (Str ''Insecta'') \<and>
              r ''Order'' = Some (Str ''Coleoptera'') \<and>
              r ''Family'' = Some (Str ''Carabidae'') \<and>
              r ''Genus'' = b ''Genus'' \<and> r ''Species'' = b ''Species''"
    by simp
  with dm db f show ?thesis by blast
qed

theorem scenario_keeps_bold_ranks_witness:
  "valueless midori_diptera ''Genus'' \<and> valueless midori_diptera ''Species'' \<and>
   valueless bold_carabidae ''Genus'' \<and> valueless bold_carabidae ''Species'' \<and>
   get_taxonomy_level midori_diptera = 4 \<and> get_taxonomy_level bold_carabidae = 5 \<and>
   find_common_level midori_diptera bold_carabidae =
     Inr (Some ''Class'', Some (Str ''Insecta''), Some (Str ''Insecta'')) \<and>
   fields (get_best_identification midori_diptera bold_carabidae)
     (levels @ [''ID_source'']) =
     Inr [None, Some (Str ''Arthropoda''), Some (Str ''Insecta''), Some (Str ''Coleoptera''),
          Some (Str ''Carabidae''), Some NaN, Some NaN, Some (Str ''BOLD'')]"
proof -
  have m: "midori_diptera ''Phylum'' = Some (Str ''Arthropoda'')"
    "midori_diptera ''Class'' = Some (Str ''Insecta'')"
    "midori_diptera ''Order'' = Some (Str ''Diptera'')"
    "midori_diptera ''Family'' = Some (Str ''no-match'')"
    by (simp_all add: midori_diptera_def)
  have mv: "valueless midori_diptera ''Genus''" "valueless midori_diptera ''Species''"
    by (simp_all add: midori_diptera_def valueless_def has_value_def notna_def)
  have b: "bold_carabidae ''Phylum'' = Some (Str ''Arthropoda'')"
    "bold_carabidae ''Class'' = Some (Str ''Insecta'')"
    "bold_carabidae ''Order'' = Some (Str ''Coleoptera'')"
    "bold_carabidae ''Family'' = Some (Str ''Carabidae'')"
    by (simp_all add: bold_carabidae_def)
  have bv: "valueless bold_carabidae ''Genus''" "valueless bold_carabidae ''Species''"
    by (simp_all add: bold_carabidae_def valueless_def has_value_def notna_def)
  have k: "get_best_identification midori_diptera bold_carabidae = Inr r \<Longrightarrow>
           r ''Kingdom'' = None" for r
    by (simp add: get_best_identification_def no_match_def levels_below_kingdom_def
      isna_def midori_diptera_def bold_carabidae_def common_or_first_def find_common_level_def
      levels_def has_value_def notna_def lower_def lower_char_def get_taxonomy_level_def
      truthy_def copy_best_def best_source_def kingdom_from_midori_def bold_columns_def
      midori_columns_def on_mismatch_def) auto
  from scenario_keeps_bold_ranks[OF m mv b bv] k
  have "fields (get_best_identification midori_diptera bold_carabidae)
     (levels @ [''ID_source'']) =
     Inr [None, Some (Str ''Arthropoda''), Some (Str ''Insecta''), Some (Str ''Coleoptera''),
          Some (Str ''Carabidae''), Some NaN, Some NaN, Some (Str ''BOLD'')]"
    by (auto simp: fields_def levels_def bold_carabidae_def)
  with scenario_keeps_bold_ranks[OF m mv b bv] mv bv show ?thesis by blast
qed

text \<open>
  C9, as the claim states it: when both rows are without a value from Phylum to Species,
  the depths tie, the result is tagged BOLD and its seven ranks are empty. With a Kingdom
  in the MIDORI row and none in the BOLD row the depths are 1 and 0: the result is tagged
  MIDORI and holds that Kingdom.
\<close>

theorem both_without_match_counterexample:
  "no_match midori_kingdom_only \<and> no_match bold_nothing \<and>
   get_taxonomy_level midori_kingdom_only = 1 \<and> get_taxonomy_level bold_nothing = 0 \<and>
   fields (get_best_identification midori_kingdom_only bold_nothing)
     [''ID_source'', ''Kingdom''] = Inr [Some (Str ''MIDORI''), Some (Str ''Animalia'')]"
  by (simp add: fields_def get_best_identification_def no_match_def levels_below_kingdom_def
      isna_def midori_kingdom_only_def bold_nothing_def common_or_first_def
      find_common_level_def levels_def has_value_def notna_def get_taxonomy_level_def
      truthy_def copy_best_def best_source_def bold_columns_def midori_columns_def)

text \<open>
  C9, amended: when both rows are without a value from Phylum to Species and at Kingdom as
  well, neither special case applies, both depths are 0, the result is tagged BOLD, it
  is the general branch's result (the columns of both sources copied) over the BOLD
  row's cells from Phylum to Species, and none of its seven ranks has a value.
\<close>

theorem both_without_match_uses_bold:
  assumes "no_match m" and "no_match b"
    and "valueless m ''Kingdom''" and "valueless b ''Kingdom''"
  shows "get_taxonomy_level m = 0 \<and> get_taxonomy_level b = 0 \<and>
         (\<exists>r. get_best_identification m b = Inr r \<and>
              r = bold_columns b (midori_columns m
                    ((copy_levels levels_below_kingdom b Map.empty)
                       (''ID_source'' \<mapsto> Str ''BOLD''))) \<and>
              r ''ID_source'' = Some (Str ''BOLD'') \<and>
              (\<forall>l \<in> set levels. valueless r l))"
proof -
  have vm: "\<forall>l \<in> set levels. valueless m l"
    using assms(1,3) no_match_valueless[of m]
    by (simp add: levels_def levels_below_kingdom_def)
  have vb: "\<forall>l \<in> set levels. valueless b l"
    using assms(2,4) no_match_valueless[of b]
    by (simp add: levels_def levels_below_kingdom_def)
  have dm: "get_taxonomy_level m = 0" using vm by (rule all_valueless_level)
  have db: "get_taxonomy_level b = 0" using vb by (rule all_valueless_level)
  have "\<forall>l \<in> set (rev levels). meets m b l = Passed"
    using vm by (simp add: valueless_meets)
  from all_passed_walk[OF this, of None None None]
  obtain u v where f: "find_common_level m b = Inr (None, u, v)"
    by (auto simp: find_common_level_def)
  have "\<forall>l \<in> set levels. valueless m l \<or> valueless b l" using vm by simp
  then have cf: "common_or_first m b = Inr (None, u, v)"
    by (simp add: common_or_first_def f first_common_loop_none)
  have km: "kingdom_from_midori m Map.empty = Map.empty"
    using assms(3) by (auto simp: kingdom_from_midori_def valueless_def split: option.splits)
  have cb: "copy_best m b = copy_levels levels_below_kingdom b Map.empty"
    by (simp add: copy_best_def dm db km)
  have bs: "best_source m b = ''BOLD''"
    by (simp add: best_source_def dm db)
  define r where "r = bold_columns b (midori_columns m
                    ((copy_levels levels_below_kingdom b Map.empty)
                       (''ID_source'' \<mapsto> Str ''BOLD'')))"
  have g: "get_best_identification m b = Inr r"
    using assms(1,2) by (simp add: general_branch cf cb bs r_def)
  have "valueless r l" if l: "l \<in> set levels" for l
  proof -
    have "r l = copy_levels levels_below_kingdom b Map.empty l"
      unfolding r_def using l by (rule columns_keep_levels)
    then have "r l = None \<or> r l = b l" by (auto simp: copy_levels_apply)
    then show ?thesis using vb l by (auto simp: valueless_def)
  qed
  moreover have "r ''ID_source'' = Some (Str ''BOLD'')" unfolding r_def by (rule columns_source)
  ultimately show ?thesis using dm db g r_def by blast
qed

theorem both_without_match_uses_bold_witness:
  "no_match midori_nothing \<and> no_match bold_nothing \<and>
   valueless midori_nothing ''Kingdom'' \<and> valueless bold_nothing ''Kingdom'' \<and>
   get_taxonomy_level midori_nothing = 0 \<and> get_taxonomy_level bold_nothing = 0 \<and>
   fields (get_best_identification midori_nothing bold_nothing) (levels @ [''ID_source'']) =
     Inr [None, Some (Str ''no-match''), Some (Str ''no-match''), Some (Str ''no-match''),
          Some (Str ''no-match''), Some (Str ''no-match''), Some (Str ''no-match''),
          Some (Str ''BOLD'')]"
proof -
  have h1: "no_match midori_nothing"
    by (simp add: no_match_def levels_below_kingdom_def midori_nothing_def isna_def)
  have h2: "no_match bold_nothing"
    by (simp add: no_match_def levels_below_kingdom_def bold_nothing_def isna_def)
  have h3: "valueless midori_nothing ''Kingdom''"
    by (simp add: valueless_def midori_nothing_def has_value_def notna_def)
  have h4: "valueless bold_nothing ''Kingdom''"
    by (simp add: valueless_def bold_nothing_def)
  from both_without_match_uses_bold[OF h1 h2 h3 h4]
  obtain r where d: "get_taxonomy_level midori_nothing = 0" "get_taxonomy_level bold_nothing = 0"
    and g: "get_best_identification midori_nothing bold_nothing = Inr r"
    and r: "r = bold_columns bold_nothing (midori_columns midori_nothing
                    ((copy_levels levels_below_kingdom bold_nothing Map.empty)
                       (''ID_source'' \<mapsto> Str ''BOLD'')))"
    by blast
  have "map r (levels @ [''ID_source'']) =
     [None, Some (Str ''no-match''), Some (Str ''no-match''), Some (Str ''no-match''),
      Some (Str ''no-match''), Some (Str ''no-match''), Some (Str ''no-match''),
      Some (Str ''BOLD'')]"
    unfolding r
    by (simp add: levels_def levels_below_kingdom_def bold_nothing_def bold_columns_def
        midori_columns_def)
  then have "fields (get_best_identification midori_nothing bold_nothing)
      (levels @ [''ID_source'']) =
     Inr [None, Some (Str ''no-match''), Some (Str ''no-match''), Some (Str ''no-match''),
          Some (Str ''no-match''), Some (Str ''no-match''), Some (Str ''no-match''),
          Some (Str ''BOLD'')]"
    by (simp add: g fields_def)
  with h1 h2 h3 h4 d show ?thesis by blast
qed

section \<open>The claim about the driver\<close>



end
